theory Spec2Isabelle
  imports Main "HOL-Library.Sublist"
begin

section \<open>Query serialisation: \<open>movieService.getMovies\<close>\<close>

text \<open>
  A \<open>MovieFilters\<close> object is the list of its own entries in insertion order, which is the
  order in which \<open>Object.entries\<close> enumerates them. A field is a string or a number
  (\<open>types/movie.ts\<close>); an optional field can be present with the value \<open>undefined\<close>
  (\<open>handleYearChange\<close> writes \<open>year: undefined\<close>), and the serialiser also tests for
  \<open>null\<close>. The type of numbers is a parameter \<open>'n\<close>, and so is
  \<open>Number.prototype.toString\<close>, which belongs to the platform.
\<close>

datatype 'n field_value = Undefined | Null | Str string | Num 'n

type_synonym 'n MovieFilters = "(string \<times> 'n field_value) list"

text \<open>The query held by a \<open>URLSearchParams\<close> object: key and value pairs, in the order of
  the calls of \<open>append\<close>.\<close>

type_synonym URLSearchParams = "(string \<times> string) list"

text \<open>\<open>value.toString()\<close> is called only on values that passed the test, so on a string
  (which is its own \<open>toString\<close>) or on a number; on \<open>undefined\<close> and \<open>null\<close> the call
  would throw a TypeError.\<close>

datatype exn = TypeError | SyntaxError | SecurityError | QuotaExceededError

fun value_toString :: "('n \<Rightarrow> string) \<Rightarrow> 'n field_value \<Rightarrow> exn + string" where
  "value_toString toStr (Str s) = Inr s"
| "value_toString toStr (Num n) = Inr (toStr n)"
| "value_toString toStr Undefined = Inl TypeError"
| "value_toString toStr Null = Inl TypeError"

text \<open>
  The body of the \<open>forEach\<close> callback of \<open>getMovies\<close>, on one entry and the parameters
  collected so far:
  \<^verbatim>\<open>if (value !== undefined && value !== null && value !== '') {
    params.append(key, value.toString()); }\<close>
\<close>

definition append_entry ::
  "('n \<Rightarrow> string) \<Rightarrow> exn + URLSearchParams \<Rightarrow> string \<times> 'n field_value \<Rightarrow> exn + URLSearchParams" where
  "append_entry toStr acc entry =
     (case acc of
        Inl e \<Rightarrow> Inl e
      | Inr params \<Rightarrow>
          (case entry of (key, v) \<Rightarrow>
             if v \<noteq> Undefined \<and> v \<noteq> Null \<and> v \<noteq> Str ''''
             then (case value_toString toStr v of
                     Inl e \<Rightarrow> Inl e
                   | Inr s \<Rightarrow> Inr (params @ [(key, s)]))
             else Inr params))"

text \<open>
  The parameters with which \<open>getMovies(filters?)\<close> calls the remote collaborator: empty
  when no filters are passed, otherwise the entries appended one by one. The request
  goes to \<open>/movies\<close> followed, when the list is not empty, by \<open>?\<close> and the form encoding
  of the list (\<open>URLSearchParams.toString\<close>, a function of the platform).
\<close>

definition getMovies_params ::
  "('n \<Rightarrow> string) \<Rightarrow> 'n MovieFilters option \<Rightarrow> exn + URLSearchParams" where
  "getMovies_params toStr filters =
     (case filters of
        None \<Rightarrow> Inr []
      | Some fs \<Rightarrow> foldl (append_entry toStr) (Inr []) fs)"

text \<open>The serialiser as the specification words it: a field is omitted when its value is
  \<open>undefined\<close>, \<open>null\<close> or the empty string, and the remaining fields appear under their own
  keys with their canonical string forms.\<close>

definition omitted :: "'n field_value \<Rightarrow> bool" where
  "omitted v = (v = Undefined \<or> v = Null \<or> v = Str '''')"

fun canonical :: "('n \<Rightarrow> string) \<Rightarrow> 'n field_value \<Rightarrow> string" where
  "canonical toStr (Num n) = toStr n"
| "canonical toStr (Str s) = s"
| "canonical toStr _ = ''''"

definition serialize_spec :: "('n \<Rightarrow> string) \<Rightarrow> 'n MovieFilters \<Rightarrow> URLSearchParams" where
  "serialize_spec toStr fs =
     map (\<lambda>kv. (fst kv, canonical toStr (snd kv))) (filter (\<lambda>kv. \<not> omitted (snd kv)) fs)"

text \<open>Decimal notation of an integer: what \<open>Number.prototype.toString\<close> yields for the
  integers below \<open>10^21\<close> in absolute value.\<close>

fun Number_digits :: "nat \<Rightarrow> string" where
  "Number_digits n =
     (if n < 10 then [''0123456789'' ! n]
      else Number_digits (n div 10) @ [''0123456789'' ! (n mod 10)])"

declare Number_digits.simps [simp del]

definition Number_toString :: "int \<Rightarrow> string" where
  "Number_toString i =
     (if i < 0 then CHR ''-'' # Number_digits (nat (- i)) else Number_digits (nat i))"



section \<open>The favourites store: \<open>utils/localStorage\<close>\<close>

subsection \<open>The platform: JSON values, \<open>localStorage\<close>, the console\<close>

text \<open>
  The values that \<open>JSON.parse\<close> returns. Movie identifiers are integers, and the numbers
  of the model are the integers.
\<close>

datatype jsvalue =
    JNull
  | JBool bool
  | JNumber int
  | JString string
  | JArray "jsvalue list"
  | JObject "(string \<times> jsvalue) list"

text \<open>
  The store holds one text under \<open>FAVORITES_STORAGE_KEY\<close>. The program looks at that text
  in two ways only: it tests whether it is the empty string (\<open>favorites ? \<dots> : []\<close>) and it
  hands it to \<open>JSON.parse\<close>. A text is therefore represented by what these two make of it:
  the empty string, a text that \<open>JSON.parse\<close> rejects with a SyntaxError, or a text that
  \<open>JSON.parse\<close> decodes to a value. \<open>JSON.stringify\<close> of a value is a text that decodes
  to that value.
\<close>

datatype stored_text = Empty | Malformed | Json jsvalue

fun JSON_parse :: "stored_text \<Rightarrow> exn + jsvalue" where
  "JSON_parse (Json v) = Inr v"
| "JSON_parse Malformed = Inl SyntaxError"
| "JSON_parse Empty = Inl SyntaxError"

definition JSON_stringify :: "jsvalue \<Rightarrow> stored_text" where
  "JSON_stringify v = Json v"

text \<open>
  The browser as the module sees it: the item stored under the key (\<open>None\<close> when the key
  is absent), whether each of the three calls of \<open>localStorage\<close> throws (storage that is
  blocked or full), and the lines written by \<open>console.error\<close>.
\<close>

record browser =
  item :: "stored_text option"
  getItem_throws :: bool
  setItem_throws :: bool
  removeItem_throws :: bool
  console :: "(string \<times> exn) list"

definition localStorage_getItem :: "browser \<Rightarrow> exn + stored_text option" where
  "localStorage_getItem w = (if getItem_throws w then Inl SecurityError else Inr (item w))"

definition localStorage_setItem :: "stored_text \<Rightarrow> browser \<Rightarrow> exn + browser" where
  "localStorage_setItem t w =
     (if setItem_throws w then Inl QuotaExceededError else Inr (w\<lparr>item := Some t\<rparr>))"

definition localStorage_removeItem :: "browser \<Rightarrow> exn + browser" where
  "localStorage_removeItem w =
     (if removeItem_throws w then Inl SecurityError else Inr (w\<lparr>item := None\<rparr>))"

definition console_error :: "string \<Rightarrow> exn \<Rightarrow> browser \<Rightarrow> browser" where
  "console_error msg e w = w\<lparr>console := console w @ [(msg, e)]\<rparr>"

text \<open>
  \<open>favorites.includes(movieId)\<close> on the value that \<open>getFavorites\<close> returned. An array has
  \<open>Array.prototype.includes\<close>; a string has \<open>String.prototype.includes\<close>, which searches
  for the decimal text of the number; every other JSON value has no callable \<open>includes\<close>,
  and the call throws a TypeError.
\<close>

fun js_includes :: "jsvalue \<Rightarrow> int \<Rightarrow> exn + bool" where
  "js_includes (JArray xs) movieId = Inr (JNumber movieId \<in> set xs)"
| "js_includes (JString s) movieId = Inr (sublist (Number_toString movieId) s)"
| "js_includes _ movieId = Inl TypeError"

text \<open>The elements that the spread \<open>...favorites\<close> puts into a new array: those of an array,
  the characters of a string; no other JSON value is iterable.\<close>

fun spread :: "jsvalue \<Rightarrow> exn + jsvalue list" where
  "spread (JArray xs) = Inr xs"
| "spread (JString s) = Inr (map (\<lambda>c. JString [c]) s)"
| "spread _ = Inl TypeError"

text \<open>\<open>favorites.filter((id) => id !== movieId)\<close>: only an array has \<open>filter\<close>.\<close>

fun filter_out :: "jsvalue \<Rightarrow> int \<Rightarrow> exn + jsvalue list" where
  "filter_out (JArray xs) movieId = Inr (filter (\<lambda>id. id \<noteq> JNumber movieId) xs)"
| "filter_out _ movieId = Inl TypeError"

subsection \<open>The functions of the module\<close>

text \<open>The functions that the hook imports under another name bear that name here
  (\<open>addToFavorites as addToFavoritesUtil\<close>, and so on).\<close>

text \<open>
  \<^verbatim>\<open>try { const favorites = localStorage.getItem(KEY);
        return favorites ? JSON.parse(favorites) : []; }
  catch (error) { console.error(...); return []; }\<close>
  The body of the \<open>try\<close> is \<open>getFavorites_try\<close>; the function returns the value and the
  browser, whose console has one more line when the \<open>catch\<close> ran.
\<close>

definition getFavorites_try :: "browser \<Rightarrow> exn + jsvalue" where
  "getFavorites_try w =
     (case localStorage_getItem w of
        Inl e \<Rightarrow> Inl e
      | Inr favorites \<Rightarrow>
          (case favorites of
             None \<Rightarrow> Inr (JArray [])
           | Some t \<Rightarrow> if t \<noteq> Empty then JSON_parse t else Inr (JArray [])))"

definition getFavorites :: "browser \<Rightarrow> jsvalue \<times> browser" where
  "getFavorites w =
     (case getFavorites_try w of
        Inr v \<Rightarrow> (v, w)
      | Inl error \<Rightarrow>
          (JArray [], console_error ''Error reading favorites from localStorage:'' error w))"

text \<open>
  \<^verbatim>\<open>try { localStorage.setItem(KEY, JSON.stringify(favorites)); }
  catch (error) { console.error(...); }\<close>
\<close>

definition saveFavorites :: "jsvalue \<Rightarrow> browser \<Rightarrow> browser" where
  "saveFavorites favorites w =
     (case localStorage_setItem (JSON_stringify favorites) w of
        Inr w' \<Rightarrow> w'
      | Inl error \<Rightarrow> console_error ''Error saving favorites to localStorage:'' error w)"

text \<open>
  \<^verbatim>\<open>const favorites = getFavorites();
  if (!favorites.includes(movieId)) {
    const newFavorites = [...favorites, movieId];
    saveFavorites(newFavorites);
    return newFavorites; }
  return favorites;\<close>
  An exception of \<open>includes\<close> or of the spread is not caught: it reaches the caller
  (\<open>Inl\<close>).
\<close>

definition addToFavoritesUtil :: "int \<Rightarrow> browser \<Rightarrow> (exn + jsvalue) \<times> browser" where
  "addToFavoritesUtil movieId w =
     (case getFavorites w of (favorites, w1) \<Rightarrow>
        (case js_includes favorites movieId of
           Inl e \<Rightarrow> (Inl e, w1)
         | Inr present \<Rightarrow>
             if \<not> present then
               (case spread favorites of
                  Inl e \<Rightarrow> (Inl e, w1)
                | Inr elements \<Rightarrow>
                    (let newFavorites = JArray (elements @ [JNumber movieId])
                     in (Inr newFavorites, saveFavorites newFavorites w1)))
             else (Inr favorites, w1)))"

text \<open>
  \<^verbatim>\<open>const favorites = getFavorites();
  const newFavorites = favorites.filter((id) => id !== movieId);
  saveFavorites(newFavorites);
  return newFavorites;\<close>
\<close>

definition removeFromFavoritesUtil :: "int \<Rightarrow> browser \<Rightarrow> (exn + jsvalue) \<times> browser" where
  "removeFromFavoritesUtil movieId w =
     (case getFavorites w of (favorites, w1) \<Rightarrow>
        (case filter_out favorites movieId of
           Inl e \<Rightarrow> (Inl e, w1)
         | Inr kept \<Rightarrow>
             (let newFavorites = JArray kept
              in (Inr newFavorites, saveFavorites newFavorites w1))))"

definition isFavoriteUtil :: "int \<Rightarrow> browser \<Rightarrow> (exn + bool) \<times> browser" where
  "isFavoriteUtil movieId w =
     (case getFavorites w of (favorites, w1) \<Rightarrow> (js_includes favorites movieId, w1))"

text \<open>
  \<^verbatim>\<open>try { localStorage.removeItem(KEY); } catch (error) { console.error(...); }\<close>
  The function returns nothing; the result records that it returned.
\<close>

definition clearFavoritesUtil :: "browser \<Rightarrow> (exn + unit) \<times> browser" where
  "clearFavoritesUtil w =
     (case localStorage_removeItem w of
        Inr w' \<Rightarrow> (Inr (), w')
      | Inl error \<Rightarrow>
          (Inr (), console_error ''Error clearing favorites from localStorage:'' error w))"

section \<open>The hook \<open>useFavorites\<close>\<close>

text \<open>
  A component that uses the hook holds the React state \<open>favorites\<close> (\<open>useState([])\<close>) and
  works on the browser. A handler that throws leaves the React state as it was.
\<close>

record hook =
  favorites :: jsvalue
  window :: browser

definition useFavorites :: "browser \<Rightarrow> hook" where
  "useFavorites w = \<lparr>favorites = JArray [], window = w\<rparr>"

text \<open>The effect that runs on mount: \<open>setFavorites(getFavorites())\<close>.\<close>

definition loadOnMount :: "hook \<Rightarrow> hook" where
  "loadOnMount h =
     (case getFavorites (window h) of (v, w') \<Rightarrow> h\<lparr>favorites := v, window := w'\<rparr>)"

definition addToFavorites :: "int \<Rightarrow> hook \<Rightarrow> (exn + unit) \<times> hook" where
  "addToFavorites movieId h =
     (case addToFavoritesUtil movieId (window h) of
        (Inl e, w') \<Rightarrow> (Inl e, h\<lparr>window := w'\<rparr>)
      | (Inr newFavorites, w') \<Rightarrow> (Inr (), h\<lparr>favorites := newFavorites, window := w'\<rparr>))"

definition removeFromFavorites :: "int \<Rightarrow> hook \<Rightarrow> (exn + unit) \<times> hook" where
  "removeFromFavorites movieId h =
     (case removeFromFavoritesUtil movieId (window h) of
        (Inl e, w') \<Rightarrow> (Inl e, h\<lparr>window := w'\<rparr>)
      | (Inr newFavorites, w') \<Rightarrow> (Inr (), h\<lparr>favorites := newFavorites, window := w'\<rparr>))"

text \<open>
  \<^verbatim>\<open>if (isFavoriteUtil(movieId)) { removeFromFavorites(movieId); }
  else { addToFavorites(movieId); }\<close>
  The test reads the store, not the React state.
\<close>

definition toggleFavorite :: "int \<Rightarrow> hook \<Rightarrow> (exn + unit) \<times> hook" where
  "toggleFavorite movieId h =
     (case isFavoriteUtil movieId (window h) of
        (Inl e, w') \<Rightarrow> (Inl e, h\<lparr>window := w'\<rparr>)
      | (Inr present, w') \<Rightarrow>
          if present then removeFromFavorites movieId (h\<lparr>window := w'\<rparr>)
          else addToFavorites movieId (h\<lparr>window := w'\<rparr>))"

text \<open>The hook's \<open>isFavorite\<close> reads the React state: \<open>favorites.includes(movieId)\<close>.\<close>

definition isFavorite :: "int \<Rightarrow> hook \<Rightarrow> exn + bool" where
  "isFavorite movieId h = js_includes (favorites h) movieId"

definition clearFavorites :: "hook \<Rightarrow> (exn + unit) \<times> hook" where
  "clearFavorites h =
     (case clearFavoritesUtil (window h) of
        (Inl e, w') \<Rightarrow> (Inl e, h\<lparr>window := w'\<rparr>)
      | (Inr u, w') \<Rightarrow> (Inr (), h\<lparr>favorites := JArray [], window := w'\<rparr>))"

text \<open>The mutating operations of the store, and a component applying a sequence of them
  one after the other (an exception of one handler does not stop the next).\<close>

datatype operation = Add int | Remove int | Toggle int | Clear

fun apply_operation :: "operation \<Rightarrow> hook \<Rightarrow> (exn + unit) \<times> hook" where
  "apply_operation (Add movieId) h = addToFavorites movieId h"
| "apply_operation (Remove movieId) h = removeFromFavorites movieId h"
| "apply_operation (Toggle movieId) h = toggleFavorite movieId h"
| "apply_operation Clear h = clearFavorites h"

fun apply_operations :: "operation list \<Rightarrow> hook \<Rightarrow> hook" where
  "apply_operations [] h = h"
| "apply_operations (operation # rest) h =
     apply_operations rest (snd (apply_operation operation h))"

text \<open>A store in which nothing fails, holding the item \<open>i\<close>.\<close>

definition working_browser :: "stored_text option \<Rightarrow> browser" where
  "working_browser i =
     \<lparr>item = i, getItem_throws = False, setItem_throws = False,
      removeItem_throws = False, console = []\<rparr>"

text \<open>A value that is an array without repeated elements.\<close>

definition no_duplicates :: "jsvalue \<Rightarrow> bool" where
  "no_duplicates v = (case v of JArray xs \<Rightarrow> distinct xs | _ \<Rightarrow> False)"


section \<open>The list page: \<open>MoviesList\<close>\<close>

subsection \<open>Responses and rejections of the remote collaborator\<close>

text \<open>
  A call of \<open>movieService\<close> returns a promise, which the remote collaborator settles later:
  it is fulfilled with a response or rejected with a reason. Of the reason the pages read
  the property \<open>message\<close> only, which a thrown value need not have.
\<close>

type_synonym rejection = "string option"

text \<open>\<open>(err as Error).message || fallback\<close>: an absent or empty message is falsy.\<close>

definition message_or :: "rejection \<Rightarrow> string \<Rightarrow> string" where
  "message_or err fallback =
     (case err of None \<Rightarrow> fallback | Some m \<Rightarrow> if m \<noteq> [] then m else fallback)"

record PaginationMeta =
  page :: int
  page_size :: int
  total_items :: int
  total_pages :: int
  has_next :: bool
  has_prev :: bool

text \<open>A \<open>PaginatedResponse\<close> as it arrives: \<open>data\<close> and \<open>meta\<close> can be missing, which is why
  the page reads \<open>response.data || []\<close> and \<open>response.meta?.total_pages || 1\<close>.\<close>

record 'm PaginatedResponse =
  success :: bool
  data :: "'m list option"
  meta :: "PaginationMeta option"

definition data_or_empty :: "'m PaginatedResponse \<Rightarrow> 'm list" where
  "data_or_empty response = (case data response of None \<Rightarrow> [] | Some ms \<Rightarrow> ms)"

definition total_pages_or_1 :: "'m PaginatedResponse \<Rightarrow> int" where
  "total_pages_or_1 response =
     (case meta response of
        None \<Rightarrow> 1
      | Some m \<Rightarrow> if total_pages m \<noteq> 0 then total_pages m else 1)"

subsection \<open>The state of the component\<close>

text \<open>
  The React state that the two pages with a fetch share (\<open>loading\<close>, \<open>error\<close>), and the
  rest of the state of \<open>MoviesList\<close>. The field \<open>requests\<close> is not in the source: it
  records the calls \<open>movieService.getMovies(filters)\<close> made so far, in order, each by its
  argument; the position of a call in it identifies the call. \<open>settled\<close> lists the calls
  whose promise has been settled.
\<close>

record fetch_state =
  loading :: bool
  error :: "string option"

record ('n, 'm) MoviesList = fetch_state +
  movies :: "'m list"
  totalPages :: int
  filters :: "'n MovieFilters"
  requests :: "'n MovieFilters list"
  settled :: "nat list"

text \<open>The object spread \<open>{ ...filters, page }\<close>: a copy of the object in which the key has
  the new value, at its old position when the object had the key and at the end
  otherwise.\<close>

fun object_with :: "string \<Rightarrow> 'v \<Rightarrow> (string \<times> 'v) list \<Rightarrow> (string \<times> 'v) list" where
  "object_with key v [] = [(key, v)]"
| "object_with key v ((k, u) # entries) =
     (if k = key then (key, v) # entries else (k, u) # object_with key v entries)"

text \<open>
  The effect \<open>useEffect(() => { fetchMovies(); }, [filters])\<close> up to the \<open>await\<close>:
  \<open>setLoading(true); setError(null);\<close> and the call of \<open>movieService.getMovies(filters)\<close>.
\<close>

definition fetchMovies :: "('n, 'm) MoviesList \<Rightarrow> ('n, 'm) MoviesList" where
  "fetchMovies s = s\<lparr>loading := True, error := None, requests := requests s @ [filters s]\<rparr>"

text \<open>The rest of \<open>fetchMovies\<close>, run when the promise awaited is fulfilled:
  \<open>setMovies(response.data || []); setTotalPages(response.meta?.total_pages || 1);\<close> and
  the \<open>finally\<close> block \<open>setLoading(false)\<close>. Nothing in it looks at which call it belongs
  to, nor at the current filters.\<close>

definition fetchMovies_fulfilled ::
  "'m PaginatedResponse \<Rightarrow> ('n, 'm) MoviesList \<Rightarrow> ('n, 'm) MoviesList" where
  "fetchMovies_fulfilled response s =
     s\<lparr>movies := data_or_empty response, totalPages := total_pages_or_1 response,
       loading := False\<rparr>"

text \<open>The \<open>catch\<close> block, run when the promise is rejected, and the \<open>finally\<close> block.\<close>

definition fetchMovies_rejected ::
  "rejection \<Rightarrow> ('n, 'm) MoviesList \<Rightarrow> ('n, 'm) MoviesList" where
  "fetchMovies_rejected err s =
     s\<lparr>error := Some (message_or err ''Failed to load movies''), loading := False\<rparr>"

text \<open>
  \<open>setFilters\<close> with a new object: every caller passes a fresh object (\<open>{ ...filters }\<close>,
  \<open>{ ...filters, page }\<close>, the object built by \<open>MovieFilters\<close>), so the dependency
  \<open>[filters]\<close> of the effect has changed and the effect runs again.
\<close>

definition setFilters :: "'n MovieFilters \<Rightarrow> ('n, 'm) MoviesList \<Rightarrow> ('n, 'm) MoviesList" where
  "setFilters newFilters s = fetchMovies (s\<lparr>filters := newFilters\<rparr>)"

text \<open>The handlers: \<open>handleFiltersChange\<close>, \<open>handlePageChange\<close> (the scrolling left out),
  and \<open>onRetry={() => setFilters({ ...filters })}\<close>.\<close>

definition handleFiltersChange ::
  "'n MovieFilters \<Rightarrow> ('n, 'm) MoviesList \<Rightarrow> ('n, 'm) MoviesList" where
  "handleFiltersChange newFilters s = setFilters newFilters s"

definition handlePageChange :: "'n \<Rightarrow> ('n, 'm) MoviesList \<Rightarrow> ('n, 'm) MoviesList" where
  "handlePageChange p s = setFilters (object_with ''page'' (Num p) (filters s)) s"

definition onRetry :: "('n, 'm) MoviesList \<Rightarrow> ('n, 'm) MoviesList" where
  "onRetry s = setFilters (filters s) s"

text \<open>The component when it has mounted: the initial state of the \<open>useState\<close> calls, and the
  effect run once. \<open>DEFAULT_PAGE_SIZE\<close> comes from \<open>config/constants\<close>.\<close>

definition MoviesList_mounted :: "'n \<Rightarrow> ('n::one, 'm) MoviesList" where
  "MoviesList_mounted DEFAULT_PAGE_SIZE =
     fetchMovies
       \<lparr>loading = True, error = None, movies = [], totalPages = 1,
        filters = [(''page'', Num 1), (''page_size'', Num DEFAULT_PAGE_SIZE)],
        requests = [], settled = []\<rparr>"

text \<open>What the component renders: the spinner alone, the error message with its retry
  button alone, or the page with the filters and the list.\<close>

datatype 'm MoviesList_view =
    LoadingSpinner
  | ErrorMessage string
  | MoviesPage bool "'m list"

definition MoviesList_render :: "('n, 'm) MoviesList \<Rightarrow> 'm MoviesList_view" where
  "MoviesList_render s =
     (if loading s \<and> length (movies s) = 0 then LoadingSpinner
      else (case error s of
              Some msg \<Rightarrow> if msg \<noteq> [] then ErrorMessage msg else MoviesPage (loading s) (movies s)
            | None \<Rightarrow> MoviesPage (loading s) (movies s)))"

subsection \<open>Events\<close>

text \<open>
  What happens to a mounted component: the user changes the filters, changes the page or
  presses retry, and the remote collaborator settles the promise of the \<open>k\<close>-th call,
  fulfilling it with a response or rejecting it.
\<close>

datatype ('n, 'm) event =
    FiltersChange "'n MovieFilters"
  | PageChange 'n
  | Retry
  | Fulfils nat "'m PaginatedResponse"
  | Rejects nat rejection

fun step :: "('n, 'm) event \<Rightarrow> ('n, 'm) MoviesList \<Rightarrow> ('n, 'm) MoviesList" where
  "step (FiltersChange newFilters) s = handleFiltersChange newFilters s"
| "step (PageChange p) s = handlePageChange p s"
| "step Retry s = onRetry s"
| "step (Fulfils k response) s = fetchMovies_fulfilled response (s\<lparr>settled := settled s @ [k]\<rparr>)"
| "step (Rejects k err) s = fetchMovies_rejected err (s\<lparr>settled := settled s @ [k]\<rparr>)"

fun run :: "('n, 'm) event list \<Rightarrow> ('n, 'm) MoviesList \<Rightarrow> ('n, 'm) MoviesList" where
  "run [] s = s"
| "run (ev # evs) s = run evs (step ev s)"

text \<open>
  An event that can happen in a state: a promise is settled once, after its call was made;
  a handler runs only when the view that carries its control is rendered (the retry
  button is on the error message, the filters on the page, the pagination under a list
  that is not empty, not loading and has more than one page).
\<close>

fun possible :: "('n, 'm) event \<Rightarrow> ('n, 'm) MoviesList \<Rightarrow> bool" where
  "possible (Fulfils k response) s = (k < length (requests s) \<and> k \<notin> set (settled s))"
| "possible (Rejects k err) s = (k < length (requests s) \<and> k \<notin> set (settled s))"
| "possible Retry s = (case MoviesList_render s of ErrorMessage msg \<Rightarrow> True | _ \<Rightarrow> False)"
| "possible (FiltersChange newFilters) s =
     (case MoviesList_render s of MoviesPage l ms \<Rightarrow> True | _ \<Rightarrow> False)"
| "possible (PageChange p) s =
     (case MoviesList_render s of
        MoviesPage l ms \<Rightarrow> \<not> l \<and> ms \<noteq> [] \<and> totalPages s > 1
      | _ \<Rightarrow> False)"

fun feasible :: "('n, 'm) event list \<Rightarrow> ('n, 'm) MoviesList \<Rightarrow> bool" where
  "feasible [] s = True"
| "feasible (ev # evs) s = (possible ev s \<and> feasible evs (step ev s))"

text \<open>Whether an event is the fulfilment of a promise.\<close>

fun is_fulfilment :: "('n, 'm) event \<Rightarrow> bool" where
  "is_fulfilment (Fulfils k response) = True"
| "is_fulfilment _ = False"

text \<open>
  An example: the first page of twenty arrives; the user picks the genre Drama and then,
  before the response has arrived, the genre Horror; the response for Horror arrives
  first and the response for Drama after it.
\<close>

definition drama :: "int MovieFilters" where
  "drama = [(''page'', Num 1), (''page_size'', Num 20), (''genre'', Str ''Drama'')]"

definition horror :: "int MovieFilters" where
  "horror = [(''page'', Num 1), (''page_size'', Num 20), (''genre'', Str ''Horror'')]"

definition response_with :: "string list \<Rightarrow> string PaginatedResponse" where
  "response_with titles = \<lparr>success = True, data = Some titles, meta = None\<rparr>"

definition stale_trace :: "(int, string) event list" where
  "stale_trace =
     [Fulfils 0 (response_with [''Up'']),
      FiltersChange drama,
      FiltersChange horror,
      Fulfils 2 (response_with [''Alien'']),
      Fulfils 1 (response_with [''Brazil''])]"


section \<open>The favourites page: \<open>Favorites\<close>\<close>

subsection \<open>Promises\<close>

text \<open>
  The promise of one call, once settled: when it was settled, and how. \<open>Promise.all\<close> of
  a list of promises is fulfilled with the values in the order of the list when all are
  fulfilled; otherwise it is rejected with the reason of the promise that was rejected
  first (the first in the list among those rejected at the same time).
\<close>

datatype 'a outcome = Fulfilled 'a | Rejected rejection

type_synonym 'a promise = "nat \<times> 'a outcome"

fun rejections :: "'a promise list \<Rightarrow> (nat \<times> rejection) list" where
  "rejections [] = []"
| "rejections ((t, Rejected err) # ps) = (t, err) # rejections ps"
| "rejections ((t, Fulfilled v) # ps) = rejections ps"

fun fulfilments :: "'a promise list \<Rightarrow> 'a list" where
  "fulfilments [] = []"
| "fulfilments ((t, Fulfilled v) # ps) = v # fulfilments ps"
| "fulfilments ((t, Rejected err) # ps) = fulfilments ps"

fun first_rejection :: "nat \<times> rejection \<Rightarrow> (nat \<times> rejection) list \<Rightarrow> rejection" where
  "first_rejection (t, err) [] = err"
| "first_rejection (t, err) ((t', err') # rs) =
     (if t' < t then first_rejection (t', err') rs else first_rejection (t, err) rs)"

definition Promise_all :: "'a promise list \<Rightarrow> rejection + 'a list" where
  "Promise_all ps =
     (case rejections ps of
        [] \<Rightarrow> Inr (fulfilments ps)
      | r # rs \<Rightarrow> Inl (first_rejection r rs))"

subsection \<open>The component\<close>

text \<open>
  What \<open>movieService.getMovieById\<close> resolves to: the movie itself, or the envelope
  \<open>{ success, data }\<close> around it, whose \<open>data\<close> can be missing. The page takes
  \<open>response.data || response\<close>: the movie inside an envelope that has one, and the
  response itself otherwise.
\<close>

datatype 'm response = Movie 'm | Envelope bool "'m option"

fun data_or_response :: "'m response \<Rightarrow> 'm response" where
  "data_or_response (Envelope ok (Some m)) = Movie m"
| "data_or_response (Envelope ok None) = Envelope ok None"
| "data_or_response (Movie m) = Movie m"

text \<open>The state of the page; \<open>calls\<close>, which is not in the source, lists the identifiers
  with which \<open>getMovieById\<close> has been called.\<close>

record 'm Favorites = fetch_state +
  favoriteMovies :: "'m response list"
  calls :: "int list"

definition Favorites_initial :: "'m Favorites" where
  "Favorites_initial = \<lparr>loading = True, error = None, favoriteMovies = [], calls = []\<rparr>"

text \<open>
  The effect \<open>useEffect(() => { fetchFavoriteMovies(); }, [favorites])\<close>, run to its end,
  for the identifiers \<open>ids\<close> held by the hook's \<open>favorites\<close> and a remote collaborator that settles the
  promise of \<open>getMovieById(id)\<close> as \<open>remote id\<close>:
  \<^verbatim>\<open>if (favorites.length === 0) { setLoading(false); return; }
  setLoading(true); setError(null);
  try { const responses = await Promise.all(favorites.map((id) => getMovieById(id)));
        setFavoriteMovies(responses.map(response => response.data || response)); }
  catch (err) { setError(err.message || 'Failed to load favorite movies'); }
  finally { setLoading(false); }\<close>
\<close>

definition fetchFavoriteMovies ::
  "(int \<Rightarrow> 'm response promise) \<Rightarrow> int list \<Rightarrow> 'm Favorites \<Rightarrow> 'm Favorites" where
  "fetchFavoriteMovies remote ids s =
     (if length ids = 0 then s\<lparr>loading := False\<rparr>
      else
        (let s1 = s\<lparr>loading := True, error := None, calls := calls s @ ids\<rparr>
         in case Promise_all (map remote ids) of
              Inr responses \<Rightarrow>
                s1\<lparr>favoriteMovies := map data_or_response responses, loading := False\<rparr>
            | Inl err \<Rightarrow>
                s1\<lparr>error := Some (message_or err ''Failed to load favorite movies''),
                   loading := False\<rparr>))"

text \<open>
  \<open>handleClearAll\<close>, when the user confirms: \<open>clearFavorites(); setFavoriteMovies([]);\<close>.
  The hook's \<open>favorites\<close> becomes the empty array, so the effect runs with it.
\<close>

definition handleClearAll ::
  "(int \<Rightarrow> 'm response promise) \<Rightarrow> hook \<times> 'm Favorites \<Rightarrow> hook \<times> 'm Favorites" where
  "handleClearAll remote hs =
     (case hs of (h, s) \<Rightarrow>
        (snd (clearFavorites h), fetchFavoriteMovies remote [] (s\<lparr>favoriteMovies := []\<rparr>)))"

text \<open>What the page renders: the spinner, the error message, or the list of cards (with
  the text ``No favorites yet'' when the list is empty).\<close>

datatype 'm Favorites_view =
    Spinner
  | Error_view string
  | Cards "'m response list"

definition Favorites_render :: "'m Favorites \<Rightarrow> 'm Favorites_view" where
  "Favorites_render s =
     (if loading s then Spinner
      else (case error s of
              Some msg \<Rightarrow> if msg \<noteq> [] then Error_view msg else Cards (favoriteMovies s)
            | None \<Rightarrow> Cards (favoriteMovies s)))"

text \<open>Whether a promise was rejected, and the value of a fulfilled one.\<close>

fun is_rejected :: "'a promise \<Rightarrow> bool" where
  "is_rejected (t, Rejected err) = True"
| "is_rejected (t, Fulfilled v) = False"

fun fulfilled_value :: "'a promise \<Rightarrow> 'a option" where
  "fulfilled_value (t, Fulfilled v) = Some v"
| "fulfilled_value (t, Rejected err) = None"

text \<open>An example of a remote collaborator: it has the movies 5 and 7, and rejects every
  other request.\<close>

definition example_remote :: "int \<Rightarrow> string response promise" where
  "example_remote movieId =
     (if movieId = 5 then (2, Fulfilled (Envelope True (Some ''Alien'')))
      else if movieId = 7 then (1, Fulfilled (Movie ''Brazil''))
      else (3, Rejected (Some ''Request failed with status code 404'')))"


section \<open>Properties of the serialiser\<close>

lemma value_toString_kept:
  "\<not> omitted v \<Longrightarrow> value_toString toStr v = Inr (canonical toStr v)"
  by (cases v) (simp_all add: omitted_def)

lemma foldl_append_entry:
  "foldl (append_entry toStr) (Inr acc) fs = Inr (acc @ serialize_spec toStr fs)"
proof (induction fs arbitrary: acc)
  case Nil
  show ?case by (simp add: serialize_spec_def)
next
  case (Cons kv fs)
  obtain k v where kv: "kv = (k, v)" by (cases kv)
  show ?case
  proof (cases "omitted v")
    case True
    then have "append_entry toStr (Inr acc) kv = Inr acc"
      by (auto simp: append_entry_def kv omitted_def)
    with Cons.IH [of acc] True show ?thesis
      by (simp add: serialize_spec_def kv)
  next
    case False
    then have "append_entry toStr (Inr acc) kv = Inr (acc @ [(k, canonical toStr v)])"
      using value_toString_kept [OF False, of toStr]
      by (auto simp: append_entry_def kv omitted_def)
    with Cons.IH [of "acc @ [(k, canonical toStr v)]"] False show ?thesis
      by (simp add: serialize_spec_def kv)
  qed
qed

lemma getMovies_params_eq:
  "getMovies_params toStr (Some fs) = Inr (serialize_spec toStr fs)"
  using foldl_append_entry [of toStr "[]" fs] by (simp add: getMovies_params_def)

lemma Number_toString_0: "Number_toString 0 = [CHR ''0'']"
  by (simp add: Number_toString_def Number_digits.simps)

text \<open>
  Claim C2. For every filter object, the parameters built by \<open>getMovies\<close> are those of the
  specification: the fields whose value is \<open>undefined\<close>, \<open>null\<close> or the empty string are
  omitted and no others, each remaining field appears under its own key with its
  canonical string form, in the order of the object, and the call never throws. A field
  holding a number is never omitted, the number \<open>0\<close> included: it is sent as the text
  that \<open>toString\<close> gives for it.
\<close>

theorem getMovies_params_serialize:
  "getMovies_params toStr (Some fs) = Inr (serialize_spec toStr fs)
   \<and> getMovies_params toStr (Some (fs @ [(k, Num n)])) =
       Inr (serialize_spec toStr fs @ [(k, toStr n)])
   \<and> getMovies_params Number_toString (Some [(key, Num 0)]) = Inr [(key, ''0'')]
   \<and> set (serialize_spec toStr fs) =
       {(fst kv, canonical toStr (snd kv)) | kv.
          kv \<in> set fs \<and> snd kv \<noteq> Undefined \<and> snd kv \<noteq> Null \<and> snd kv \<noteq> Str ''''}"
proof -
  have b: "serialize_spec toStr (fs @ [(k, Num n)]) = serialize_spec toStr fs @ [(k, toStr n)]"
    by (simp add: serialize_spec_def omitted_def)
  have d: "set (serialize_spec toStr fs) =
       {(fst kv, canonical toStr (snd kv)) | kv.
          kv \<in> set fs \<and> snd kv \<noteq> Undefined \<and> snd kv \<noteq> Null \<and> snd kv \<noteq> Str ''''}"
  proof -
    have "set (serialize_spec toStr fs) =
        (\<lambda>kv. (fst kv, canonical toStr (snd kv))) ` {kv \<in> set fs. \<not> omitted (snd kv)}"
      by (simp add: serialize_spec_def)
    also have "\<dots> = {(fst kv, canonical toStr (snd kv)) | kv.
          kv \<in> set fs \<and> snd kv \<noteq> Undefined \<and> snd kv \<noteq> Null \<and> snd kv \<noteq> Str ''''}"
      unfolding omitted_def image_def by blast
    finally show ?thesis .
  qed
  have e: "getMovies_params Number_toString (Some [(key, Num 0)]) = Inr [(key, ''0'')]"
    by (simp add: getMovies_params_eq serialize_spec_def omitted_def Number_toString_0)
  from getMovies_params_eq [of toStr fs] getMovies_params_eq [of toStr "fs @ [(k, Num n)]"] b d e
  show ?thesis by simp
qed


section \<open>Properties of the favourites store\<close>

lemma getFavorites_fst:
  "fst (getFavorites w) =
     (if getItem_throws w then JArray []
      else (case item w of
              None \<Rightarrow> JArray []
            | Some t \<Rightarrow> (case t of Json v \<Rightarrow> v | Malformed \<Rightarrow> JArray [] | Empty \<Rightarrow> JArray [])))"
  by (simp add: getFavorites_def getFavorites_try_def localStorage_getItem_def
      split: option.splits stored_text.splits)

lemma getFavorites_snd [simp]:
  "item (snd (getFavorites w)) = item w"
  "getItem_throws (snd (getFavorites w)) = getItem_throws w"
  "setItem_throws (snd (getFavorites w)) = setItem_throws w"
  "removeItem_throws (snd (getFavorites w)) = removeItem_throws w"
  by (simp_all add: getFavorites_def console_error_def split: sum.splits)

lemma saveFavorites_fields [simp]:
  "item (saveFavorites v w) = (if setItem_throws w then item w else Some (Json v))"
  "getItem_throws (saveFavorites v w) = getItem_throws w"
  "setItem_throws (saveFavorites v w) = setItem_throws w"
  "removeItem_throws (saveFavorites v w) = removeItem_throws w"
  by (simp_all add: saveFavorites_def localStorage_setItem_def JSON_stringify_def
      console_error_def)

lemma getFavorites_cong:
  "item w' = item w \<Longrightarrow> getItem_throws w' = getItem_throws w \<Longrightarrow>
   fst (getFavorites w') = fst (getFavorites w)"
  by (simp add: getFavorites_fst)

lemma addToFavoritesUtil_snd:
  "snd (addToFavoritesUtil movieId w) = snd (getFavorites w)
   \<or> (\<exists>v. snd (addToFavoritesUtil movieId w) = saveFavorites v (snd (getFavorites w)))"
  by (cases "getFavorites w") (auto simp: addToFavoritesUtil_def Let_def split: sum.splits)

lemma removeFromFavoritesUtil_snd:
  "snd (removeFromFavoritesUtil movieId w) = snd (getFavorites w)
   \<or> (\<exists>v. snd (removeFromFavoritesUtil movieId w) = saveFavorites v (snd (getFavorites w)))"
  by (cases "getFavorites w") (auto simp: removeFromFavoritesUtil_def Let_def split: sum.splits)

lemma addToFavoritesUtil_fields [simp]:
  "getItem_throws (snd (addToFavoritesUtil movieId w)) = getItem_throws w"
  "setItem_throws (snd (addToFavoritesUtil movieId w)) = setItem_throws w"
  "removeItem_throws (snd (addToFavoritesUtil movieId w)) = removeItem_throws w"
  using addToFavoritesUtil_snd [of movieId w] by auto

lemma removeFromFavoritesUtil_fields [simp]:
  "getItem_throws (snd (removeFromFavoritesUtil movieId w)) = getItem_throws w"
  "setItem_throws (snd (removeFromFavoritesUtil movieId w)) = setItem_throws w"
  "removeItem_throws (snd (removeFromFavoritesUtil movieId w)) = removeItem_throws w"
  using removeFromFavoritesUtil_snd [of movieId w] by auto

lemma isFavoriteUtil_snd [simp]: "snd (isFavoriteUtil movieId w) = snd (getFavorites w)"
  by (cases "getFavorites w") (simp add: isFavoriteUtil_def)

lemma clearFavoritesUtil_fields [simp]:
  "fst (clearFavoritesUtil w) = Inr ()"
  "item (snd (clearFavoritesUtil w)) = (if removeItem_throws w then item w else None)"
  "getItem_throws (snd (clearFavoritesUtil w)) = getItem_throws w"
  "setItem_throws (snd (clearFavoritesUtil w)) = setItem_throws w"
  "removeItem_throws (snd (clearFavoritesUtil w)) = removeItem_throws w"
  by (simp_all add: clearFavoritesUtil_def localStorage_removeItem_def console_error_def)


lemma addToFavoritesUtil_fst:
  "fst (addToFavoritesUtil movieId w) =
     (case js_includes (fst (getFavorites w)) movieId of
        Inl e \<Rightarrow> Inl e
      | Inr present \<Rightarrow>
          if present then Inr (fst (getFavorites w))
          else (case spread (fst (getFavorites w)) of
                  Inl e \<Rightarrow> Inl e
                | Inr elements \<Rightarrow> Inr (JArray (elements @ [JNumber movieId]))))"
  by (cases "getFavorites w") (simp add: addToFavoritesUtil_def Let_def split: sum.splits)

lemma addToFavoritesUtil_item:
  "item (snd (addToFavoritesUtil movieId w)) =
     (case fst (addToFavoritesUtil movieId w) of
        Inl e \<Rightarrow> item w
      | Inr v \<Rightarrow>
          if js_includes (fst (getFavorites w)) movieId = Inr True \<or> setItem_throws w
          then item w else Some (Json v))"
proof (cases "getFavorites w")
  case (Pair v w1)
  have w1: "item w1 = item w" "setItem_throws w1 = setItem_throws w"
    using getFavorites_snd [of w] by (simp_all add: Pair)
  show ?thesis
    by (simp add: addToFavoritesUtil_def Pair Let_def w1 split: sum.splits)
qed

lemma removeFromFavoritesUtil_fst:
  "fst (removeFromFavoritesUtil movieId w) =
     (case filter_out (fst (getFavorites w)) movieId of
        Inl e \<Rightarrow> Inl e
      | Inr kept \<Rightarrow> Inr (JArray kept))"
  by (cases "getFavorites w") (simp add: removeFromFavoritesUtil_def Let_def split: sum.splits)

lemma removeFromFavoritesUtil_item:
  "item (snd (removeFromFavoritesUtil movieId w)) =
     (case fst (removeFromFavoritesUtil movieId w) of
        Inl e \<Rightarrow> item w
      | Inr v \<Rightarrow> if setItem_throws w then item w else Some (Json v))"
proof (cases "getFavorites w")
  case (Pair v w1)
  have w1: "item w1 = item w" "setItem_throws w1 = setItem_throws w"
    using getFavorites_snd [of w] by (simp_all add: Pair)
  show ?thesis
    by (simp add: removeFromFavoritesUtil_def Pair Let_def w1 split: sum.splits)
qed

text \<open>What \<open>getFavorites\<close> reads after an operation of the module.\<close>

lemma getFavorites_after_add:
  "fst (getFavorites (snd (addToFavoritesUtil movieId w))) =
     (case fst (addToFavoritesUtil movieId w) of
        Inl e \<Rightarrow> fst (getFavorites w)
      | Inr v \<Rightarrow>
          if js_includes (fst (getFavorites w)) movieId = Inr True \<or> setItem_throws w
             \<or> getItem_throws w
          then fst (getFavorites w) else v)"
  by (simp add: getFavorites_fst [of "snd (addToFavoritesUtil movieId w)"]
      addToFavoritesUtil_item getFavorites_fst [of w] split: sum.splits)

lemma getFavorites_after_remove:
  "fst (getFavorites (snd (removeFromFavoritesUtil movieId w))) =
     (case fst (removeFromFavoritesUtil movieId w) of
        Inl e \<Rightarrow> fst (getFavorites w)
      | Inr v \<Rightarrow>
          if setItem_throws w \<or> getItem_throws w then fst (getFavorites w) else v)"
  by (simp add: getFavorites_fst [of "snd (removeFromFavoritesUtil movieId w)"]
      removeFromFavoritesUtil_item getFavorites_fst [of w] split: sum.splits)



subsection \<open>The handlers of the hook\<close>

lemma addToFavorites_eq:
  "addToFavorites movieId h =
     (case fst (addToFavoritesUtil movieId (window h)) of
        Inl e \<Rightarrow> (Inl e, h\<lparr>window := snd (addToFavoritesUtil movieId (window h))\<rparr>)
      | Inr v \<Rightarrow>
          (Inr (), h\<lparr>favorites := v, window := snd (addToFavoritesUtil movieId (window h))\<rparr>))"
  by (cases "addToFavoritesUtil movieId (window h)")
     (simp add: addToFavorites_def split: sum.splits)

lemma removeFromFavorites_eq:
  "removeFromFavorites movieId h =
     (case fst (removeFromFavoritesUtil movieId (window h)) of
        Inl e \<Rightarrow> (Inl e, h\<lparr>window := snd (removeFromFavoritesUtil movieId (window h))\<rparr>)
      | Inr v \<Rightarrow>
          (Inr (), h\<lparr>favorites := v, window := snd (removeFromFavoritesUtil movieId (window h))\<rparr>))"
  by (cases "removeFromFavoritesUtil movieId (window h)")
     (simp add: removeFromFavorites_def split: sum.splits)

lemma toggleFavorite_eq:
  "toggleFavorite movieId h =
     (case js_includes (fst (getFavorites (window h))) movieId of
        Inl e \<Rightarrow> (Inl e, h\<lparr>window := snd (getFavorites (window h))\<rparr>)
      | Inr present \<Rightarrow>
          if present then removeFromFavorites movieId (h\<lparr>window := snd (getFavorites (window h))\<rparr>)
          else addToFavorites movieId (h\<lparr>window := snd (getFavorites (window h))\<rparr>))"
  by (cases "getFavorites (window h)")
     (simp add: toggleFavorite_def isFavoriteUtil_def split: sum.splits)

lemma clearFavorites_eq:
  "clearFavorites h =
     (Inr (), h\<lparr>favorites := JArray [], window := snd (clearFavoritesUtil (window h))\<rparr>)"
  by (cases "clearFavoritesUtil (window h)")
     (use clearFavoritesUtil_fields(1) [of "window h"] in \<open>simp add: clearFavorites_def\<close>)

lemma getFavorites_idem [simp]:
  "fst (getFavorites (snd (getFavorites w))) = fst (getFavorites w)"
  by (rule getFavorites_cong) simp_all

text \<open>One operation on a store whose content reads as an array.\<close>

lemma addToFavorites_array:
  assumes "fst (getFavorites (window h)) = JArray xs"
  shows "fst (addToFavorites movieId h) = Inr ()"
    and "favorites (snd (addToFavorites movieId h)) =
           JArray (if JNumber movieId \<in> set xs then xs else xs @ [JNumber movieId])"
    and "fst (getFavorites (window (snd (addToFavorites movieId h)))) =
           JArray (if JNumber movieId \<in> set xs \<or> setItem_throws (window h)
                      \<or> getItem_throws (window h)
                   then xs else xs @ [JNumber movieId])"
  using assms
  by (simp_all add: addToFavorites_eq addToFavoritesUtil_fst getFavorites_after_add)

lemma removeFromFavorites_array:
  assumes "fst (getFavorites (window h)) = JArray xs"
  shows "fst (removeFromFavorites movieId h) = Inr ()"
    and "favorites (snd (removeFromFavorites movieId h)) =
           JArray (filter (\<lambda>id. id \<noteq> JNumber movieId) xs)"
    and "fst (getFavorites (window (snd (removeFromFavorites movieId h)))) =
           JArray (if setItem_throws (window h) \<or> getItem_throws (window h)
                   then xs else filter (\<lambda>id. id \<noteq> JNumber movieId) xs)"
  using assms
  by (simp_all add: removeFromFavorites_eq removeFromFavoritesUtil_fst getFavorites_after_remove)

lemma toggleFavorite_array:
  assumes "fst (getFavorites (window h)) = JArray xs"
  shows "fst (toggleFavorite movieId h) = Inr ()"
    and "favorites (snd (toggleFavorite movieId h)) =
           JArray (if JNumber movieId \<in> set xs then filter (\<lambda>id. id \<noteq> JNumber movieId) xs
                   else xs @ [JNumber movieId])"
    and "fst (getFavorites (window (snd (toggleFavorite movieId h)))) =
           JArray (if setItem_throws (window h) \<or> getItem_throws (window h) then xs
                   else if JNumber movieId \<in> set xs
                        then filter (\<lambda>id. id \<noteq> JNumber movieId) xs
                        else xs @ [JNumber movieId])"
proof -
  let ?h = "h\<lparr>window := snd (getFavorites (window h))\<rparr>"
  have v: "fst (getFavorites (window ?h)) = JArray xs"
    using assms by simp
  have f: "setItem_throws (window ?h) = setItem_throws (window h)"
    "getItem_throws (window ?h) = getItem_throws (window h)"
    by simp_all
  note a = addToFavorites_array [OF v, of movieId] and r = removeFromFavorites_array [OF v, of movieId]
  show "fst (toggleFavorite movieId h) = Inr ()"
    using assms a(1) r(1) by (simp add: toggleFavorite_eq)
  show "favorites (snd (toggleFavorite movieId h)) =
           JArray (if JNumber movieId \<in> set xs then filter (\<lambda>id. id \<noteq> JNumber movieId) xs
                   else xs @ [JNumber movieId])"
    using assms a(2) r(2) by (simp add: toggleFavorite_eq)
  show "fst (getFavorites (window (snd (toggleFavorite movieId h)))) =
           JArray (if setItem_throws (window h) \<or> getItem_throws (window h) then xs
                   else if JNumber movieId \<in> set xs
                        then filter (\<lambda>id. id \<noteq> JNumber movieId) xs
                        else xs @ [JNumber movieId])"
    using assms a(3) r(3) unfolding f by (simp add: toggleFavorite_eq)
qed

lemma clearFavorites_array:
  shows "fst (clearFavorites h) = Inr ()"
    and "favorites (snd (clearFavorites h)) = JArray []"
    and "fst (getFavorites (window (snd (clearFavorites h)))) =
           (if removeItem_throws (window h) then fst (getFavorites (window h)) else JArray [])"
  by (simp_all add: clearFavorites_eq getFavorites_fst)

lemma addToFavorites_window:
  "window (snd (addToFavorites movieId h)) = snd (addToFavoritesUtil movieId (window h))"
  by (simp add: addToFavorites_eq split: sum.splits)

lemma removeFromFavorites_window:
  "window (snd (removeFromFavorites movieId h)) = snd (removeFromFavoritesUtil movieId (window h))"
  by (simp add: removeFromFavorites_eq split: sum.splits)

lemma toggleFavorite_window:
  "window (snd (toggleFavorite movieId h)) = snd (getFavorites (window h))
   \<or> window (snd (toggleFavorite movieId h)) =
        snd (removeFromFavoritesUtil movieId (snd (getFavorites (window h))))
   \<or> window (snd (toggleFavorite movieId h)) =
        snd (addToFavoritesUtil movieId (snd (getFavorites (window h))))"
  by (simp add: toggleFavorite_eq addToFavorites_window removeFromFavorites_window
      split: sum.splits)

lemma clearFavorites_window:
  "window (snd (clearFavorites h)) = snd (clearFavoritesUtil (window h))"
  by (simp add: clearFavorites_eq)

lemma hook_flags [simp]:
  "getItem_throws (window (snd (apply_operation operation h))) = getItem_throws (window h)"
  "setItem_throws (window (snd (apply_operation operation h))) = setItem_throws (window h)"
  "removeItem_throws (window (snd (apply_operation operation h))) = removeItem_throws (window h)"
proof -
  have "getItem_throws (window (snd (apply_operation operation h))) = getItem_throws (window h)
    \<and> setItem_throws (window (snd (apply_operation operation h))) = setItem_throws (window h)
    \<and> removeItem_throws (window (snd (apply_operation operation h))) =
        removeItem_throws (window h)"
  proof (cases operation)
    case (Add movieId)
    then show ?thesis by (simp add: addToFavorites_window)
  next
    case (Remove movieId)
    then show ?thesis by (simp add: removeFromFavorites_window)
  next
    case (Toggle movieId)
    then show ?thesis using toggleFavorite_window [of movieId h] by auto
  next
    case Clear
    then show ?thesis by (simp add: clearFavorites_window)
  qed
  then show
    "getItem_throws (window (snd (apply_operation operation h))) = getItem_throws (window h)"
    "setItem_throws (window (snd (apply_operation operation h))) = setItem_throws (window h)"
    "removeItem_throws (window (snd (apply_operation operation h))) = removeItem_throws (window h)"
    by simp_all
qed

subsection \<open>Sequences of operations\<close>

lemma apply_operations_flags [simp]:
  "getItem_throws (window (apply_operations ops h)) = getItem_throws (window h)"
  "setItem_throws (window (apply_operations ops h)) = setItem_throws (window h)"
  "removeItem_throws (window (apply_operations ops h)) = removeItem_throws (window h)"
  by (induction ops arbitrary: h) simp_all

text \<open>Every operation keeps the array that \<open>getFavorites\<close> reads free of duplicates, and
  hands an array without duplicates to the React state.\<close>

lemma no_duplicates_step:
  assumes "no_duplicates (fst (getFavorites (window h)))"
  shows "no_duplicates (fst (getFavorites (window (snd (apply_operation operation h)))))
       \<and> no_duplicates (favorites (snd (apply_operation operation h)))"
proof -
  from assms obtain xs where xs: "fst (getFavorites (window h)) = JArray xs" "distinct xs"
    by (cases "fst (getFavorites (window h))") (simp_all add: no_duplicates_def)
  show ?thesis
  proof (cases operation)
    case (Add movieId)
    with xs show ?thesis
      by (simp add: addToFavorites_array [OF xs(1)] no_duplicates_def)
  next
    case (Remove movieId)
    with xs show ?thesis
      by (simp add: removeFromFavorites_array [OF xs(1)] no_duplicates_def)
  next
    case (Toggle movieId)
    with xs show ?thesis
      by (simp add: toggleFavorite_array [OF xs(1)] no_duplicates_def)
  next
    case Clear
    with xs show ?thesis
      by (simp add: clearFavorites_array no_duplicates_def)
  qed
qed

lemma no_duplicates_run:
  assumes "no_duplicates (fst (getFavorites (window h)))" "no_duplicates (favorites h)"
  shows "no_duplicates (fst (getFavorites (window (apply_operations ops h))))
       \<and> no_duplicates (favorites (apply_operations ops h))"
  using assms
proof (induction ops arbitrary: h)
  case Nil
  then show ?case by simp
next
  case (Cons operation ops)
  from no_duplicates_step [OF Cons.prems(1), of operation] Cons.IH
  show ?case by simp
qed

text \<open>When no call of the store fails, every operation leaves the React state equal to
  what \<open>getFavorites\<close> reads.\<close>

lemma in_sync_step:
  assumes "\<not> getItem_throws (window h)" "\<not> setItem_throws (window h)"
    "\<not> removeItem_throws (window h)"
    and "fst (getFavorites (window h)) = favorites h"
  shows "fst (getFavorites (window (snd (apply_operation operation h)))) =
         favorites (snd (apply_operation operation h))"
proof -
  have add: "fst (getFavorites (window (snd (addToFavorites movieId h')))) =
         favorites (snd (addToFavorites movieId h'))"
    if "\<not> getItem_throws (window h')" "\<not> setItem_throws (window h')"
      "fst (getFavorites (window h')) = favorites h'" for movieId h'
    using that
    by (auto simp: addToFavorites_eq getFavorites_after_add addToFavoritesUtil_fst
        split: sum.splits if_splits)
  have remove: "fst (getFavorites (window (snd (removeFromFavorites movieId h')))) =
         favorites (snd (removeFromFavorites movieId h'))"
    if "\<not> getItem_throws (window h')" "\<not> setItem_throws (window h')"
      "fst (getFavorites (window h')) = favorites h'" for movieId h'
    using that
    by (auto simp: removeFromFavorites_eq getFavorites_after_remove split: sum.splits)
  show ?thesis
  proof (cases operation)
    case (Add movieId)
    with assms add [of h movieId] show ?thesis by simp
  next
    case (Remove movieId)
    with assms remove [of h movieId] show ?thesis by simp
  next
    case (Toggle movieId)
    let ?h = "h\<lparr>window := snd (getFavorites (window h))\<rparr>"
    have "\<not> getItem_throws (window ?h)" "\<not> setItem_throws (window ?h)"
      "fst (getFavorites (window ?h)) = favorites ?h"
      using assms by simp_all
    from add [OF this] remove [OF this] assms(4) Toggle show ?thesis
      by (simp add: toggleFavorite_eq split: sum.splits)
  next
    case Clear
    with assms show ?thesis by (simp add: clearFavorites_array)
  qed
qed

lemma in_sync_run:
  assumes "\<not> getItem_throws (window h)" "\<not> setItem_throws (window h)"
    "\<not> removeItem_throws (window h)"
    and "fst (getFavorites (window h)) = favorites h"
  shows "fst (getFavorites (window (apply_operations ops h))) = favorites (apply_operations ops h)"
  using assms
proof (induction ops arbitrary: h)
  case Nil
  then show ?case by simp
next
  case (Cons operation ops)
  have "fst (getFavorites (window (snd (apply_operation operation h)))) =
         favorites (snd (apply_operation operation h))"
    by (rule in_sync_step) (fact Cons.prems)+
  with Cons.IH [of "snd (apply_operation operation h)"] Cons.prems show ?case
    by simp
qed

lemma loadOnMount_fields [simp]:
  "favorites (loadOnMount h) = fst (getFavorites (window h))"
  "window (loadOnMount h) = snd (getFavorites (window h))"
  by (cases "getFavorites (window h)"; simp add: loadOnMount_def)+

lemma useFavorites_fields [simp]:
  "favorites (useFavorites w) = JArray []" "window (useFavorites w) = w"
  by (simp_all add: useFavorites_def)

subsection \<open>Evaluating the module on a given store\<close>

lemmas store_defs =
  working_browser_def getFavorites_def getFavorites_try_def localStorage_getItem_def
  saveFavorites_def localStorage_setItem_def JSON_stringify_def console_error_def
  addToFavoritesUtil_def removeFromFavoritesUtil_def isFavoriteUtil_def
  clearFavoritesUtil_def localStorage_removeItem_def

lemmas hook_defs =
  useFavorites_def loadOnMount_def addToFavorites_def removeFromFavorites_def
  toggleFavorite_def clearFavorites_def

text \<open>The part of the recovery that \<open>getFavorites\<close> does perform: it returns to its caller
  on every store, and it returns the empty array when the key is absent, when the text
  is empty or is not JSON, and when the store cannot be read.\<close>

lemma getFavorites_recovers:
  "getItem_throws w \<or> item w = None \<or> item w = Some Empty \<or> item w = Some Malformed
   \<Longrightarrow> fst (getFavorites w) = JArray []"
  by (auto simp: getFavorites_fst)

lemma getFavorites_valid: 
  "\<not> getItem_throws w \<Longrightarrow> item w = Some (Json v) \<Longrightarrow> fst (getFavorites w) = v"
  by (simp add: getFavorites_fst)

text \<open>
  Claim C3. \<open>getFavorites\<close> is to return a set for every content of the key. On the stored
  text \<open>null\<close>, which is valid JSON, it returns \<open>null\<close>: not an array, so neither a set nor
  the empty set. Its callers then throw: \<open>null.includes\<close> is a TypeError in
  \<open>addToFavorites\<close> and in \<open>isFavorite\<close>, and \<open>null.filter\<close> in \<open>removeFromFavorites\<close>.
\<close>

theorem getFavorites_null:
  "fst (getFavorites (working_browser (Some (Json JNull)))) = JNull
   \<and> fst (addToFavoritesUtil 5 (working_browser (Some (Json JNull)))) = Inl TypeError
   \<and> fst (isFavoriteUtil 5 (working_browser (Some (Json JNull)))) = Inl TypeError
   \<and> fst (removeFromFavoritesUtil 5 (working_browser (Some (Json JNull)))) = Inl TypeError"
  by (simp add: store_defs Let_def)




text \<open>
  Claim C5, as stated: every mutating operation persists the new set before it returns,
  so that \<open>getFavorites\<close> afterwards returns the set the operation returned. On a store
  whose \<open>setItem\<close> throws (storage full or blocked), adding 5 to the empty store returns
  the array \<open>[5]\<close> and persists nothing: the next \<open>getFavorites\<close> returns the empty
  array.
\<close>

theorem failed_write_not_persisted:
  "fst (addToFavoritesUtil 5 ((working_browser None)\<lparr>setItem_throws := True\<rparr>)) =
     Inr (JArray [JNumber 5])
   \<and> fst (getFavorites (snd (addToFavoritesUtil 5
         ((working_browser None)\<lparr>setItem_throws := True\<rparr>)))) = JArray []
   \<and> fst (getFavorites (snd (addToFavoritesUtil 5
         ((working_browser None)\<lparr>setItem_throws := True\<rparr>)))) \<noteq> JArray [JNumber 5]
   \<and> item (snd (addToFavoritesUtil 5 ((working_browser None)\<lparr>setItem_throws := True\<rparr>))) =
     None"
  by (simp add: store_defs Let_def)

text \<open>
  Claim C5, amended: when the calls of the store do not fail, every mutating operation
  that returns has persisted what it returns, a cleared store reads as empty, and after
  every sequence of operations of a mounted component \<open>getFavorites\<close> returns the array
  that the last operation handed to the React state. In particular, on a store that
  reads as empty, \<open>add(5); add(7); remove(5)\<close> leaves a store that reads as \<open>[7]\<close>.
\<close>

theorem persisted_when_store_works:
  assumes "\<not> getItem_throws w" "\<not> setItem_throws w" "\<not> removeItem_throws w"
  shows
  "(fst (addToFavoritesUtil movieId w) = Inr v \<longrightarrow>
      fst (getFavorites (snd (addToFavoritesUtil movieId w))) = v)
   \<and> (fst (removeFromFavoritesUtil movieId w) = Inr v \<longrightarrow>
      fst (getFavorites (snd (removeFromFavoritesUtil movieId w))) = v)
   \<and> fst (getFavorites (snd (clearFavoritesUtil w))) = JArray []
   \<and> fst (getFavorites (window (apply_operations ops (loadOnMount (useFavorites w))))) =
       favorites (apply_operations ops (loadOnMount (useFavorites w)))
   \<and> (fst (getFavorites w) = JArray [] \<longrightarrow>
       fst (getFavorites (window (apply_operations [Add 5, Add 7, Remove 5]
             (loadOnMount (useFavorites w))))) = JArray [JNumber 7])"
proof -
  let ?h = "loadOnMount (useFavorites w)"
  have a: "fst (getFavorites (snd (addToFavoritesUtil movieId w))) = v"
    if "fst (addToFavoritesUtil movieId w) = Inr v"
    using that assms
    by (auto simp: getFavorites_after_add addToFavoritesUtil_fst split: sum.splits if_splits)
  have r: "fst (getFavorites (snd (removeFromFavoritesUtil movieId w))) = v"
    if "fst (removeFromFavoritesUtil movieId w) = Inr v"
    using that assms by (simp add: getFavorites_after_remove)
  have c: "fst (getFavorites (snd (clearFavoritesUtil w))) = JArray []"
    using assms by (simp add: getFavorites_fst)
  have h: "\<not> getItem_throws (window ?h)" "\<not> setItem_throws (window ?h)"
    "\<not> removeItem_throws (window ?h)" "fst (getFavorites (window ?h)) = favorites ?h"
    using assms by simp_all
  have s: "fst (getFavorites (window (apply_operations ops ?h))) =
       favorites (apply_operations ops ?h)" for ops
    by (rule in_sync_run) (fact h)+
  have t: "fst (getFavorites (window (apply_operations [Add 5, Add 7, Remove 5] ?h))) =
       JArray [JNumber 7]" if e: "fst (getFavorites w) = JArray []"
  proof -
    have v0: "fst (getFavorites (window ?h)) = JArray []"
      using e by simp
    let ?h1 = "snd (addToFavorites 5 ?h)"
    have v1: "fst (getFavorites (window ?h1)) = JArray [JNumber 5]"
      using addToFavorites_array(3) [OF v0, of 5] h by simp
    let ?h2 = "snd (addToFavorites 7 ?h1)"
    have f1: "\<not> getItem_throws (window ?h1)" "\<not> setItem_throws (window ?h1)"
      using hook_flags [of "Add 5" ?h] h by simp_all
    have v2: "fst (getFavorites (window ?h2)) = JArray [JNumber 5, JNumber 7]"
      using addToFavorites_array(3) [OF v1, of 7] f1 by simp
    let ?h3 = "snd (removeFromFavorites 5 ?h2)"
    have f2: "\<not> getItem_throws (window ?h2)" "\<not> setItem_throws (window ?h2)"
      using hook_flags [of "Add 7" ?h1] f1 by simp_all
    have v3: "fst (getFavorites (window ?h3)) = JArray [JNumber 7]"
      using removeFromFavorites_array(3) [OF v2, of 5] f2 by simp
    then show ?thesis by simp
  qed
  from a r c s [of ops] t show ?thesis by blast
qed

theorem persisted_when_store_works_witness:
  "\<not> getItem_throws (working_browser None) \<and> \<not> setItem_throws (working_browser None)
   \<and> \<not> removeItem_throws (working_browser None)
   \<and> fst (addToFavoritesUtil 5 (working_browser None)) = Inr (JArray [JNumber 5])
   \<and> fst (getFavorites (snd (addToFavoritesUtil 5 (working_browser None)))) = JArray [JNumber 5]
   \<and> fst (getFavorites (window (apply_operations [Add 5, Add 7, Remove 5]
         (loadOnMount (useFavorites (working_browser None)))))) = JArray [JNumber 7]
   \<and> favorites (apply_operations [Add 5, Add 7, Remove 5]
         (loadOnMount (useFavorites (working_browser None)))) = JArray [JNumber 7]"
proof -
  have hyp: "\<not> getItem_throws (working_browser None)" "\<not> setItem_throws (working_browser None)"
    "\<not> removeItem_throws (working_browser None)"
    by (simp_all add: working_browser_def)
  have e: "fst (getFavorites (working_browser None)) = JArray []"
    by (simp add: store_defs)
  have a: "fst (addToFavoritesUtil 5 (working_browser None)) = Inr (JArray [JNumber 5])"
    by (simp add: store_defs Let_def)
  note inst = persisted_when_store_works [OF hyp, of 5 "JArray [JNumber 5]"
      "[Add 5, Add 7, Remove 5]"]
  from inst a have b:
    "fst (getFavorites (snd (addToFavoritesUtil 5 (working_browser None)))) = JArray [JNumber 5]"
    by blast
  from inst e have c: "fst (getFavorites (window (apply_operations [Add 5, Add 7, Remove 5]
         (loadOnMount (useFavorites (working_browser None)))))) = JArray [JNumber 7]"
    by blast
  from inst have "fst (getFavorites (window (apply_operations [Add 5, Add 7, Remove 5]
         (loadOnMount (useFavorites (working_browser None)))))) =
     favorites (apply_operations [Add 5, Add 7, Remove 5]
         (loadOnMount (useFavorites (working_browser None))))"
    by blast
  with c have d: "favorites (apply_operations [Add 5, Add 7, Remove 5]
         (loadOnMount (useFavorites (working_browser None)))) = JArray [JNumber 7]"
    by (simp only:)
  from hyp a b c d show ?thesis by blast
qed

text \<open>
  Claim C9. A component mounted on a store that reads as the empty array holds, after
  every sequence of add, remove, toggle and clear operations, an array without duplicates
  in its React state, and the store reads as an array without duplicates. (Each operation
  keeps an array without duplicates free of duplicates: lemma \<open>no_duplicates_step\<close>.)
\<close>

theorem no_duplicate_favorites:
  assumes "fst (getFavorites w) = JArray []"
  shows "no_duplicates (favorites (apply_operations ops (loadOnMount (useFavorites w))))
       \<and> no_duplicates (fst (getFavorites (window
             (apply_operations ops (loadOnMount (useFavorites w))))))"
proof -
  let ?h = "loadOnMount (useFavorites w)"
  have "no_duplicates (fst (getFavorites (window ?h)))" "no_duplicates (favorites ?h)"
    using assms by (simp_all add: no_duplicates_def)
  from no_duplicates_run [OF this, of ops] show ?thesis by simp
qed

theorem no_duplicate_favorites_witness:
  "fst (getFavorites (working_browser None)) = JArray []
   \<and> no_duplicates (favorites (apply_operations [Add 5, Add 5, Toggle 7, Toggle 7, Add 7, Remove 5, Add 5]
         (loadOnMount (useFavorites (working_browser None)))))
   \<and> no_duplicates (fst (getFavorites (window
         (apply_operations [Add 5, Add 5, Toggle 7, Toggle 7, Add 7, Remove 5, Add 5]
            (loadOnMount (useFavorites (working_browser None)))))))"
proof -
  have hyp: "fst (getFavorites (working_browser None)) = JArray []"
    by (simp add: store_defs)
  from no_duplicate_favorites [OF hyp,
      of "[Add 5, Add 5, Toggle 7, Toggle 7, Add 7, Remove 5, Add 5]"] hyp
  show ?thesis by simp
qed

text \<open>
  Claim C10. On a store that reads as an array and whose \<open>setItem\<close> throws, adding and
  removing an identifier still return to the caller, with the updated array, which is the
  value they return when the write succeeds; the item in the store is left as it was and
  the failure is written to the console. \<open>clearFavorites\<close> returns to its caller also
  when \<open>removeItem\<close> throws.
\<close>

theorem write_failure_not_thrown:
  assumes "fst (getFavorites w) = JArray xs" and "setItem_throws w"
  shows
  "fst (addToFavoritesUtil movieId w) =
     Inr (JArray (if JNumber movieId \<in> set xs then xs else xs @ [JNumber movieId]))
   \<and> fst (removeFromFavoritesUtil movieId w) =
     Inr (JArray (filter (\<lambda>id. id \<noteq> JNumber movieId) xs))
   \<and> fst (addToFavoritesUtil movieId (w\<lparr>setItem_throws := False\<rparr>)) =
     fst (addToFavoritesUtil movieId w)
   \<and> fst (removeFromFavoritesUtil movieId (w\<lparr>setItem_throws := False\<rparr>)) =
     fst (removeFromFavoritesUtil movieId w)
   \<and> item (snd (addToFavoritesUtil movieId w)) = item w
   \<and> item (snd (removeFromFavoritesUtil movieId w)) = item w
   \<and> console (snd (removeFromFavoritesUtil movieId w)) =
     console (snd (getFavorites w)) @
       [(''Error saving favorites to localStorage:'', QuotaExceededError)]
   \<and> console (snd (addToFavoritesUtil movieId w)) =
     (if JNumber movieId \<in> set xs then console (snd (getFavorites w))
      else console (snd (getFavorites w)) @
        [(''Error saving favorites to localStorage:'', QuotaExceededError)])
   \<and> fst (clearFavoritesUtil (w\<lparr>removeItem_throws := True\<rparr>)) = Inr ()
   \<and> item (snd (clearFavoritesUtil (w\<lparr>removeItem_throws := True\<rparr>))) = item w"
proof -
  let ?w = "w\<lparr>setItem_throws := False\<rparr>"
  have v: "fst (getFavorites ?w) = fst (getFavorites w)"
    by (rule getFavorites_cong) simp_all
  have a: "fst (addToFavoritesUtil movieId w) =
     Inr (JArray (if JNumber movieId \<in> set xs then xs else xs @ [JNumber movieId]))"
    using assms by (simp add: addToFavoritesUtil_fst)
  have r: "fst (removeFromFavoritesUtil movieId w) =
     Inr (JArray (filter (\<lambda>id. id \<noteq> JNumber movieId) xs))"
    using assms by (simp add: removeFromFavoritesUtil_fst)
  have a': "fst (addToFavoritesUtil movieId ?w) = fst (addToFavoritesUtil movieId w)"
    by (simp only: addToFavoritesUtil_fst v)
  have r': "fst (removeFromFavoritesUtil movieId ?w) = fst (removeFromFavoritesUtil movieId w)"
    by (simp only: removeFromFavoritesUtil_fst v)
  have ia: "item (snd (addToFavoritesUtil movieId w)) = item w"
    using assms by (simp add: addToFavoritesUtil_item split: sum.splits)
  have ir: "item (snd (removeFromFavoritesUtil movieId w)) = item w"
    using assms by (simp add: removeFromFavoritesUtil_item split: sum.splits)
  have s: "setItem_throws (snd (getFavorites w))"
    using assms by simp
  have c: "console (snd (removeFromFavoritesUtil movieId w)) =
     console (snd (getFavorites w)) @
       [(''Error saving favorites to localStorage:'', QuotaExceededError)]"
    using assms(1) s
    by (cases "getFavorites w")
       (simp add: removeFromFavoritesUtil_def Let_def saveFavorites_def
          localStorage_setItem_def console_error_def)
  have c': "console (snd (addToFavoritesUtil movieId w)) =
     (if JNumber movieId \<in> set xs then console (snd (getFavorites w))
      else console (snd (getFavorites w)) @
        [(''Error saving favorites to localStorage:'', QuotaExceededError)])"
    using assms(1) s
    by (cases "getFavorites w")
       (simp add: addToFavoritesUtil_def Let_def saveFavorites_def
          localStorage_setItem_def console_error_def)
  from a r a' r' ia ir c c' show ?thesis by simp
qed

theorem write_failure_not_thrown_witness:
  "fst (getFavorites ((working_browser (Some (Json (JArray [JNumber 5]))))\<lparr>setItem_throws := True\<rparr>))
     = JArray [JNumber 5]
   \<and> setItem_throws ((working_browser (Some (Json (JArray [JNumber 5]))))\<lparr>setItem_throws := True\<rparr>)
   \<and> fst (addToFavoritesUtil 7
        ((working_browser (Some (Json (JArray [JNumber 5]))))\<lparr>setItem_throws := True\<rparr>)) =
      Inr (JArray [JNumber 5, JNumber 7])
   \<and> fst (removeFromFavoritesUtil 5
        ((working_browser (Some (Json (JArray [JNumber 5]))))\<lparr>setItem_throws := True\<rparr>)) =
      Inr (JArray [])
   \<and> item (snd (addToFavoritesUtil 7
        ((working_browser (Some (Json (JArray [JNumber 5]))))\<lparr>setItem_throws := True\<rparr>))) =
      Some (Json (JArray [JNumber 5]))"
proof -
  let ?w = "(working_browser (Some (Json (JArray [JNumber 5]))))\<lparr>setItem_throws := True\<rparr>"
  have hyp: "fst (getFavorites ?w) = JArray [JNumber 5]" "setItem_throws ?w"
    by (simp_all add: store_defs)
  have i: "item ?w = Some (Json (JArray [JNumber 5]))"
    by (simp add: working_browser_def)
  from write_failure_not_thrown [OF hyp, of 7] write_failure_not_thrown [OF hyp, of 5] hyp i
  show ?thesis by simp
qed


section \<open>Properties of the list page\<close>

lemma run_append: "run (evs @ evs') s = run evs' (run evs s)"
  by (induction evs arbitrary: s) simp_all

lemmas MoviesList_defs =
  fetchMovies_def fetchMovies_fulfilled_def fetchMovies_rejected_def setFilters_def
  handleFiltersChange_def handlePageChange_def onRetry_def

lemma step_movies:
  "\<not> is_fulfilment ev \<Longrightarrow> movies (step ev s) = movies s"
  by (cases ev) (simp_all add: MoviesList_defs)

lemma run_movies:
  "list_all (\<lambda>ev. \<not> is_fulfilment ev) evs \<Longrightarrow> movies (run evs s) = movies s"
  by (induction evs arbitrary: s) (simp_all add: step_movies)

lemma step_last_request:
  assumes "requests s \<noteq> []" "last (requests s) = filters s"
  shows "requests (step ev s) \<noteq> [] \<and> last (requests (step ev s)) = filters (step ev s)"
  using assms by (cases ev) (simp_all add: MoviesList_defs)

lemma run_last_request:
  assumes "requests s \<noteq> []" "last (requests s) = filters s"
  shows "requests (run evs s) \<noteq> [] \<and> last (requests (run evs s)) = filters (run evs s)"
  using assms
proof (induction evs arbitrary: s)
  case Nil
  then show ?case by simp
next
  case (Cons ev evs)
  from step_last_request [OF Cons.prems, of ev] Cons.IH [of "step ev s"]
  show ?case by simp
qed

lemma message_or_nonempty: "fallback \<noteq> [] \<Longrightarrow> message_or err fallback \<noteq> []"
  by (simp add: message_or_def split: option.splits)

text \<open>
  Claim C1, as stated: the response of a superseded fetch is discarded when it arrives. In
  the example, which can happen, the filters are changed to Drama and then to Horror
  while the fetch for Drama is in flight; the response for Horror arrives first and the
  response for Drama last. The page then holds the filters Horror, its last call was
  made for Horror, and the movies it publishes are those of the response for Drama.
\<close>

theorem stale_response_published:
  "feasible stale_trace (MoviesList_mounted 20)
   \<and> requests (run stale_trace (MoviesList_mounted 20)) =
       [[(''page'', Num 1), (''page_size'', Num 20)], drama, horror]
   \<and> filters (run stale_trace (MoviesList_mounted 20)) = horror
   \<and> settled (run stale_trace (MoviesList_mounted 20)) = [0, 2, 1]
   \<and> movies (run stale_trace (MoviesList_mounted 20)) = [''Brazil'']
   \<and> movies (run stale_trace (MoviesList_mounted 20)) \<noteq> [''Alien'']
   \<and> MoviesList_render (run stale_trace (MoviesList_mounted 20)) = MoviesPage False [''Brazil'']"
  by (simp add: stale_trace_def MoviesList_mounted_def MoviesList_defs MoviesList_render_def
      response_with_def data_or_empty_def total_pages_or_1_def drama_def horror_def)

text \<open>
  Claim C1, amended: a response is published when it arrives, whichever call it answers
  and whatever has been asked for since. After every sequence of events the movies
  published are the data of the response that arrived last.
\<close>

theorem last_fulfilment_published:
  assumes "list_all (\<lambda>ev. \<not> is_fulfilment ev) later"
  shows "movies (run (earlier @ Fulfils k response # later) s) = data_or_empty response"
proof -
  have "movies (run (earlier @ Fulfils k response # later) s) =
      movies (step (Fulfils k response) (run earlier s))"
    using run_movies [OF assms] by (simp add: run_append)
  then show ?thesis by (simp add: fetchMovies_fulfilled_def)
qed

theorem last_fulfilment_published_witness:
  "list_all (\<lambda>ev. \<not> is_fulfilment ev)
     [FiltersChange drama, Rejects 3 None :: (int, string) event]
   \<and> movies (run ([Fulfils 0 (response_with [''Up'']), FiltersChange drama, FiltersChange horror,
                   Fulfils 2 (response_with [''Alien''])]
                  @ Fulfils 1 (response_with [''Brazil''])
                  # [FiltersChange drama, Rejects 3 None])
               (MoviesList_mounted 20)) = [''Brazil'']"
proof -
  have hyp: "list_all (\<lambda>ev. \<not> is_fulfilment ev)
      [FiltersChange drama, Rejects 3 None :: (int, string) event]"
    by simp
  have d: "data_or_empty (response_with [''Brazil'']) = [''Brazil'']"
    by (simp add: data_or_empty_def response_with_def)
  from last_fulfilment_published [OF hyp,
      of "[Fulfils 0 (response_with [''Up'']), FiltersChange drama, FiltersChange horror,
           Fulfils 2 (response_with [''Alien''])]" 1 "response_with [''Brazil'']"
         "MoviesList_mounted 20"]
  have "movies (run ([Fulfils 0 (response_with [''Up'']), FiltersChange drama, FiltersChange horror,
                   Fulfils 2 (response_with [''Alien''])]
                  @ Fulfils 1 (response_with [''Brazil''])
                  # [FiltersChange drama, Rejects 3 None])
               (MoviesList_mounted 20)) = [''Brazil'']"
    by (simp only: d)
  with hyp show ?thesis by (rule conjI)
qed

text \<open>
  Claim C8. When the promise of a call is rejected the page shows the error message with
  its retry button. Pressing it makes exactly one more call, with the current filters,
  which it leaves as they are, and the page is loading again with no error. The call
  repeated has the same argument, hence the same serialised query, as the call that
  failed when that call was made with the current filters; and in every state of a
  mounted component the last call made is the one for the current filters.
\<close>

theorem retry_reissues_current_filters:
  "MoviesList_render (step (Rejects k err) s) =
     ErrorMessage (message_or err ''Failed to load movies'')
   \<and> possible Retry (step (Rejects k err) s)
   \<and> requests (step (Rejects k err) s) = requests s
   \<and> requests (step Retry (step (Rejects k err) s)) = requests s @ [filters s]
   \<and> filters (step Retry (step (Rejects k err) s)) = filters s
   \<and> loading (step Retry (step (Rejects k err) s))
   \<and> error (step Retry (step (Rejects k err) s)) = None
   \<and> (requests s ! k = filters s \<longrightarrow>
        getMovies_params toStr (Some (last (requests (step Retry (step (Rejects k err) s))))) =
        getMovies_params toStr (Some (requests s ! k)))
   \<and> last (requests (run evs (MoviesList_mounted DEFAULT_PAGE_SIZE))) =
       filters (run evs (MoviesList_mounted DEFAULT_PAGE_SIZE))"
proof -
  let ?s1 = "step (Rejects k err) s"
  have m: "message_or err ''Failed to load movies'' \<noteq> []"
    by (rule message_or_nonempty) simp
  have r: "MoviesList_render ?s1 = ErrorMessage (message_or err ''Failed to load movies'')"
    using m by (simp add: MoviesList_render_def fetchMovies_rejected_def)
  then have p: "possible Retry ?s1"
    by simp
  have q: "requests ?s1 = requests s" "filters ?s1 = filters s"
    by (simp_all add: fetchMovies_rejected_def)
  have t: "requests (step Retry ?s1) = requests s @ [filters s]"
    "filters (step Retry ?s1) = filters s" "loading (step Retry ?s1)"
    "error (step Retry ?s1) = None"
    using q by (simp_all add: onRetry_def setFilters_def fetchMovies_def)
  have u: "last (requests (run evs (MoviesList_mounted DEFAULT_PAGE_SIZE))) =
       filters (run evs (MoviesList_mounted DEFAULT_PAGE_SIZE))"
    by (rule run_last_request [THEN conjunct2])
       (simp_all add: MoviesList_mounted_def fetchMovies_def)
  from r p q(1) t u show ?thesis by simp
qed

theorem retry_reissues_current_filters_witness:
  "requests (MoviesList_mounted 20 :: (int, string) MoviesList) ! 0 =
     filters (MoviesList_mounted 20 :: (int, string) MoviesList)
   \<and> MoviesList_render (step (Rejects 0 (Some ''Network Error''))
        (MoviesList_mounted 20 :: (int, string) MoviesList)) = ErrorMessage ''Network Error''
   \<and> requests (step Retry (step (Rejects 0 (Some ''Network Error''))
        (MoviesList_mounted 20 :: (int, string) MoviesList))) =
      [[(''page'', Num 1), (''page_size'', Num 20)], [(''page'', Num 1), (''page_size'', Num 20)]]
   \<and> getMovies_params Number_toString (Some (last (requests (step Retry
        (step (Rejects 0 (Some ''Network Error''))
          (MoviesList_mounted 20 :: (int, string) MoviesList)))))) =
      getMovies_params Number_toString
        (Some (requests (MoviesList_mounted 20 :: (int, string) MoviesList) ! 0))"
proof -
  let ?s = "MoviesList_mounted 20 :: (int, string) MoviesList"
  have hyp: "requests ?s ! 0 = filters ?s"
    by (simp add: MoviesList_mounted_def fetchMovies_def)
  have f: "requests ?s = [[(''page'', Num 1), (''page_size'', Num 20)]]"
    "filters ?s = [(''page'', Num 1), (''page_size'', Num 20)]"
    by (simp_all add: MoviesList_mounted_def fetchMovies_def)
  have m: "message_or (Some ''Network Error'') ''Failed to load movies'' = ''Network Error''"
    by (simp add: message_or_def)
  note inst =
    retry_reissues_current_filters [of 0 "Some ''Network Error''" ?s Number_toString "[]" 20]
  from inst have a: "MoviesList_render (step (Rejects 0 (Some ''Network Error'')) ?s) =
      ErrorMessage ''Network Error''"
    unfolding m by blast
  from inst have "requests (step Retry (step (Rejects 0 (Some ''Network Error'')) ?s)) =
      requests ?s @ [filters ?s]"
    by blast
  then have b: "requests (step Retry (step (Rejects 0 (Some ''Network Error'')) ?s)) =
      [[(''page'', Num 1), (''page_size'', Num 20)], [(''page'', Num 1), (''page_size'', Num 20)]]"
    by (simp only: f append.simps)
  from inst hyp have c: "getMovies_params Number_toString (Some (last (requests (step Retry
        (step (Rejects 0 (Some ''Network Error'')) ?s))))) =
      getMovies_params Number_toString (Some (requests ?s ! 0))"
    by blast
  from hyp a b c show ?thesis by blast
qed


section \<open>Properties of the favourites page\<close>

lemma rejections_empty_iff:
  "rejections ps = [] \<longleftrightarrow> list_all (\<lambda>p. \<not> is_rejected p) ps"
  by (induction ps rule: rejections.induct) simp_all

lemma fulfilments_all:
  "list_all (\<lambda>p. \<not> is_rejected p) ps \<Longrightarrow> map Some (fulfilments ps) = map fulfilled_value ps"
  by (induction ps rule: rejections.induct) simp_all

lemma rejections_set:
  "(t, err) \<in> set (rejections ps) \<longleftrightarrow> (t, Rejected err) \<in> set ps"
  by (induction ps rule: rejections.induct) auto

lemma first_rejection_mem:
  "\<exists>t'. (t', first_rejection (t, err) rs) \<in> set ((t, err) # rs)"
proof (induction rs arbitrary: t err)
  case Nil
  show ?case by auto
next
  case (Cons r rs)
  obtain t' err' where r: "r = (t', err')" by (cases r)
  from Cons.IH [of t' err'] Cons.IH [of t err] show ?case
    by (auto simp: r)
qed

text \<open>\<open>Promise.all\<close> is rejected exactly when one of the promises is, with the reason of one
  of them; it is fulfilled with one value for each promise otherwise.\<close>

lemma Promise_all_rejected:
  assumes "list_ex is_rejected ps"
  shows "\<exists>t err. Promise_all ps = Inl err \<and> (t, Rejected err) \<in> set ps"
proof -
  from assms have "rejections ps \<noteq> []"
    by (simp add: rejections_empty_iff list_all_iff list_ex_iff)
  then obtain r rs where rs: "rejections ps = r # rs"
    by (cases "rejections ps") auto
  obtain t err where r: "r = (t, err)" by (cases r)
  from first_rejection_mem [of t err rs] obtain t'
    where "(t', first_rejection (t, err) rs) \<in> set (rejections ps)"
    by (auto simp: rs r)
  then have "(t', Rejected (first_rejection (t, err) rs)) \<in> set ps"
    by (simp add: rejections_set)
  then show ?thesis
    by (auto simp: Promise_all_def rs r)
qed

lemma Promise_all_fulfilled:
  assumes "list_all (\<lambda>p. \<not> is_rejected p) ps"
  shows "Promise_all ps = Inr (fulfilments ps)"
  using assms by (simp add: Promise_all_def rejections_empty_iff [symmetric])

text \<open>
  Claim C6. For a list of identifiers that is not empty: when the promise of one of the
  calls is rejected, the page ends with one error message, made from the reason of one of
  the rejected calls, renders that message and nothing else, and leaves its list of
  movies as it was, so that no part of the new list is published; when every promise is
  fulfilled, the page ends with no error and renders a list with one entity for each
  identifier, in the order of the identifiers. In both cases it has called the remote
  collaborator once for each identifier.
\<close>

theorem hydration_all_or_nothing:
  assumes "ids \<noteq> []"
  shows
  "(list_ex (\<lambda>id. is_rejected (remote id)) ids \<longrightarrow>
      (\<exists>t err id. id \<in> set ids \<and> remote id = (t, Rejected err)
         \<and> error (fetchFavoriteMovies remote ids s) =
             Some (message_or err ''Failed to load favorite movies'')
         \<and> Favorites_render (fetchFavoriteMovies remote ids s) =
             Error_view (message_or err ''Failed to load favorite movies''))
      \<and> favoriteMovies (fetchFavoriteMovies remote ids s) = favoriteMovies s)
   \<and> (list_all (\<lambda>id. \<not> is_rejected (remote id)) ids \<longrightarrow>
      map Some (favoriteMovies (fetchFavoriteMovies remote ids s)) =
        map (\<lambda>id. map_option data_or_response (fulfilled_value (remote id))) ids
      \<and> length (favoriteMovies (fetchFavoriteMovies remote ids s)) = length ids
      \<and> error (fetchFavoriteMovies remote ids s) = None
      \<and> Favorites_render (fetchFavoriteMovies remote ids s) =
          Cards (favoriteMovies (fetchFavoriteMovies remote ids s)))
   \<and> loading (fetchFavoriteMovies remote ids s) = False
   \<and> calls (fetchFavoriteMovies remote ids s) = calls s @ ids"
proof -
  let ?s' = "fetchFavoriteMovies remote ids s"
  let ?ps = "map remote ids"
  have l: "loading ?s' = False" "calls ?s' = calls s @ ids"
    using assms by (simp_all add: fetchFavoriteMovies_def Let_def split: sum.splits)
  have rej: "(\<exists>t err id. id \<in> set ids \<and> remote id = (t, Rejected err)
         \<and> error ?s' = Some (message_or err ''Failed to load favorite movies'')
         \<and> Favorites_render ?s' = Error_view (message_or err ''Failed to load favorite movies''))
      \<and> favoriteMovies ?s' = favoriteMovies s"
    if "list_ex (\<lambda>id. is_rejected (remote id)) ids"
  proof -
    from that have "list_ex is_rejected ?ps"
      by (simp add: list_ex_iff)
    from Promise_all_rejected [OF this] obtain t err
      where p: "Promise_all ?ps = Inl err" "(t, Rejected err) \<in> set ?ps"
      by blast
    from p(2) obtain i where i: "i \<in> set ids" "remote i = (t, Rejected err)"
      by auto
    have m: "message_or err ''Failed to load favorite movies'' \<noteq> []"
      by (rule message_or_nonempty) simp
    have e: "error ?s' = Some (message_or err ''Failed to load favorite movies'')"
      "favoriteMovies ?s' = favoriteMovies s"
      using assms p(1) by (simp_all add: fetchFavoriteMovies_def Let_def)
    have "Favorites_render ?s' = Error_view (message_or err ''Failed to load favorite movies'')"
      using l(1) e(1) m by (simp add: Favorites_render_def)
    with i e show ?thesis by blast
  qed
  have ful: "map Some (favoriteMovies ?s') =
        map (\<lambda>id. map_option data_or_response (fulfilled_value (remote id))) ids
      \<and> length (favoriteMovies ?s') = length ids
      \<and> error ?s' = None
      \<and> Favorites_render ?s' = Cards (favoriteMovies ?s')"
    if "list_all (\<lambda>id. \<not> is_rejected (remote id)) ids"
  proof -
    from that have a: "list_all (\<lambda>p. \<not> is_rejected p) ?ps"
      by (simp add: list_all_iff)
    have f: "favoriteMovies ?s' = map data_or_response (fulfilments ?ps)" "error ?s' = None"
      using assms Promise_all_fulfilled [OF a]
      by (simp_all add: fetchFavoriteMovies_def Let_def)
    have "map Some (favoriteMovies ?s') =
        map (map_option data_or_response) (map Some (fulfilments ?ps))"
      by (simp add: f(1))
    also have "\<dots> = map (\<lambda>id. map_option data_or_response (fulfilled_value (remote id))) ids"
      by (simp add: fulfilments_all [OF a])
    finally have g: "map Some (favoriteMovies ?s') =
        map (\<lambda>id. map_option data_or_response (fulfilled_value (remote id))) ids" .
    then have "length (map Some (favoriteMovies ?s')) = length ids"
      by simp
    then have h: "length (favoriteMovies ?s') = length ids"
      by simp
    have "Favorites_render ?s' = Cards (favoriteMovies ?s')"
      using l(1) f(2) by (simp add: Favorites_render_def)
    with g h f(2) show ?thesis by blast
  qed
  from rej ful l show ?thesis by blast
qed

theorem hydration_all_or_nothing_witness:
  "[5, 7, 9] \<noteq> ([] :: int list) \<and> list_ex (\<lambda>id. is_rejected (example_remote id)) [5, 7, 9]
   \<and> favoriteMovies (fetchFavoriteMovies example_remote [5, 7, 9] Favorites_initial) = []
   \<and> [5, 7] \<noteq> ([] :: int list) \<and> list_all (\<lambda>id. \<not> is_rejected (example_remote id)) [5, 7]
   \<and> length (favoriteMovies (fetchFavoriteMovies example_remote [5, 7] Favorites_initial)) = 2
   \<and> error (fetchFavoriteMovies example_remote [5, 7] Favorites_initial) = None"
proof -
  have hyp1: "[5, 7, 9] \<noteq> ([] :: int list)" and hyp2: "[5, 7] \<noteq> ([] :: int list)"
    by simp_all
  have r: "list_ex (\<lambda>id. is_rejected (example_remote id)) [5, 7, 9]"
    by (simp add: example_remote_def)
  have f: "list_all (\<lambda>id. \<not> is_rejected (example_remote id)) [5, 7]"
    by (simp add: example_remote_def)
  have i: "favoriteMovies (Favorites_initial :: string Favorites) = []"
    by (simp add: Favorites_initial_def)
  from hydration_all_or_nothing [OF hyp1, of example_remote Favorites_initial] r
  have "favoriteMovies (fetchFavoriteMovies example_remote [5, 7, 9] Favorites_initial) =
      favoriteMovies (Favorites_initial :: string Favorites)"
    by blast
  then have a: "favoriteMovies (fetchFavoriteMovies example_remote [5, 7, 9] Favorites_initial) = []"
    by (simp only: i)
  from hydration_all_or_nothing [OF hyp2, of example_remote Favorites_initial] f
  have "length (favoriteMovies (fetchFavoriteMovies example_remote [5, 7] Favorites_initial)) =
      length [5, 7 :: int]
    \<and> error (fetchFavoriteMovies example_remote [5, 7] Favorites_initial) = None"
    by blast
  then have b: "length (favoriteMovies (fetchFavoriteMovies example_remote [5, 7] Favorites_initial)) = 2"
    "error (fetchFavoriteMovies example_remote [5, 7] Favorites_initial) = None"
    by simp_all
  from hyp1 hyp2 r f a b show ?thesis by blast
qed

text \<open>
  Claim C7. With the empty list of identifiers the effect calls the remote collaborator
  not at all, and it leaves the list of movies as it was: it returns before
  \<open>setFavoriteMovies\<close>. The list is empty on a page that has just mounted, but not after
  an earlier hydration. In the example the store holds the favourite 5, the page has
  shown its movie, and the user removes it with the heart on its card: the hook's
  \<open>favorites\<close> becomes the empty array, the effect runs with the empty list, and the page
  goes on rendering the card of movie 5. The sibling path \<open>handleClearAll\<close> does empty
  the list.
\<close>

theorem empty_hydration_keeps_movies:
  "calls (fetchFavoriteMovies remote [] s) = calls s
   \<and> favoriteMovies (fetchFavoriteMovies remote [] s) = favoriteMovies s
   \<and> favoriteMovies (fetchFavoriteMovies remote [] (Favorites_initial :: 'm Favorites)) = []
   \<and> favorites (snd (toggleFavorite 5 (loadOnMount (useFavorites
        (working_browser (Some (Json (JArray [JNumber 5])))))))) = JArray []
   \<and> favoriteMovies (fetchFavoriteMovies example_remote [5] Favorites_initial) = [Movie ''Alien'']
   \<and> favoriteMovies (fetchFavoriteMovies example_remote []
        (fetchFavoriteMovies example_remote [5] Favorites_initial)) = [Movie ''Alien'']
   \<and> Favorites_render (fetchFavoriteMovies example_remote []
        (fetchFavoriteMovies example_remote [5] Favorites_initial)) = Cards [Movie ''Alien'']
   \<and> favoriteMovies (snd (handleClearAll remote (h, s))) = []"
proof -
  have a: "calls (fetchFavoriteMovies remote [] s) = calls s"
    "favoriteMovies (fetchFavoriteMovies remote [] s) = favoriteMovies s" for s :: "'m Favorites"
    by (simp_all add: fetchFavoriteMovies_def)
  have b: "favoriteMovies (fetchFavoriteMovies remote [] (Favorites_initial :: 'm Favorites)) = []"
    by (simp add: fetchFavoriteMovies_def Favorites_initial_def)
  have c: "favorites (snd (toggleFavorite 5 (loadOnMount (useFavorites
        (working_browser (Some (Json (JArray [JNumber 5])))))))) = JArray []"
    by (simp add: store_defs hook_defs Let_def)
  have d: "fetchFavoriteMovies example_remote [5] Favorites_initial =
      \<lparr>loading = False, error = None, favoriteMovies = [Movie ''Alien''], calls = [5]\<rparr>"
    by (simp add: fetchFavoriteMovies_def Favorites_initial_def example_remote_def
        Promise_all_def Let_def)
  have e: "fetchFavoriteMovies example_remote []
      \<lparr>loading = False, error = None, favoriteMovies = [Movie ''Alien''], calls = [5]\<rparr> =
      \<lparr>loading = False, error = None, favoriteMovies = [Movie ''Alien''], calls = [5]\<rparr>"
    by (simp add: fetchFavoriteMovies_def)
  have f: "favoriteMovies (snd (handleClearAll remote (h, s))) = []"
    by (simp add: handleClearAll_def fetchFavoriteMovies_def)
  show ?thesis
    unfolding d e using a b c f by (simp add: Favorites_render_def)
qed


end
